theory Spec2Isabelle
  imports Complex_Main "HOL-Library.Sublist"
begin

section \<open>JavaScript values read by send-mqtt.js\<close>

text \<open>
  The script \<^verbatim>\<open>.github/workflows/send-mqtt.js\<close> reads its configuration from
  \<^verbatim>\<open>process.env\<close>, whose entries are strings: a variable is \<^verbatim>\<open>undefined\<close> (here
  \<open>None\<close>) or a string (\<open>Some s\<close>, possibly the empty string).
\<close>

type_synonym env = "string \<rightharpoonup> string"

text \<open>
  JavaScript truthiness of such an entry, as \<^verbatim>\<open>!TARGET\<close>, \<^verbatim>\<open>a || b\<close> and \<^verbatim>\<open>a && b\<close>
  test it: \<^verbatim>\<open>undefined\<close> and the empty string are falsy, every other string is truthy.
\<close>

definition truthy :: "string option \<Rightarrow> bool" where
  "truthy v = (case v of None \<Rightarrow> False | Some s \<Rightarrow> s \<noteq> [])"

text \<open>
  A JavaScript number: not-a-number, the two infinities, or a finite value. A finite
  double is a rational number and is modelled by its exact value; the rounding of IEEE
  arithmetic is not modelled. The loop counter, the comparisons and the multiplication
  by a power of two below are exact on doubles as long as the counter stays below
  \<open>2^53\<close> and the product below \<open>2^1024\<close>.
\<close>

datatype jsnum = NaN | NegInf | Fin rat | PosInf

text \<open>The relational operators \<^verbatim>\<open><\<close> and \<^verbatim>\<open><=\<close>: false whenever an operand is NaN.\<close>

fun js_lt :: "jsnum \<Rightarrow> jsnum \<Rightarrow> bool" where
  "js_lt NaN y = False"
| "js_lt x NaN = False"
| "js_lt x NegInf = False"
| "js_lt PosInf y = False"
| "js_lt NegInf y = True"
| "js_lt x PosInf = True"
| "js_lt (Fin a) (Fin b) = (a < b)"

fun js_le :: "jsnum \<Rightarrow> jsnum \<Rightarrow> bool" where
  "js_le NaN y = False"
| "js_le x NaN = False"
| "js_le NegInf y = True"
| "js_le x PosInf = True"
| "js_le x NegInf = False"
| "js_le PosInf y = False"
| "js_le (Fin a) (Fin b) = (a \<le> b)"

text \<open>The sign of an infinite product, and the operators \<^verbatim>\<open>*\<close> and \<^verbatim>\<open>+\<close>.\<close>

definition inf_of_sign :: "rat \<Rightarrow> jsnum" where
  "inf_of_sign a = (if a = 0 then NaN else if 0 < a then PosInf else NegInf)"

fun js_mul :: "jsnum \<Rightarrow> jsnum \<Rightarrow> jsnum" where
  "js_mul NaN y = NaN"
| "js_mul x NaN = NaN"
| "js_mul (Fin a) (Fin b) = Fin (a * b)"
| "js_mul (Fin a) PosInf = inf_of_sign a"
| "js_mul (Fin a) NegInf = inf_of_sign (- a)"
| "js_mul PosInf (Fin b) = inf_of_sign b"
| "js_mul NegInf (Fin b) = inf_of_sign (- b)"
| "js_mul PosInf PosInf = PosInf"
| "js_mul NegInf NegInf = PosInf"
| "js_mul PosInf NegInf = NegInf"
| "js_mul NegInf PosInf = NegInf"

fun js_add :: "jsnum \<Rightarrow> jsnum \<Rightarrow> jsnum" where
  "js_add NaN y = NaN"
| "js_add x NaN = NaN"
| "js_add (Fin a) (Fin b) = Fin (a + b)"
| "js_add PosInf NegInf = NaN"
| "js_add NegInf PosInf = NaN"
| "js_add PosInf y = PosInf"
| "js_add NegInf y = NegInf"
| "js_add (Fin a) y = y"

text \<open>\<^verbatim>\<open>Math.pow(2, n)\<close> for an integer \<open>n\<close>.\<close>

definition Math_pow2 :: "int \<Rightarrow> jsnum" where
  "Math_pow2 n = Fin (if 0 \<le> n then 2 ^ nat n else 1 / 2 ^ nat (- n))"

text \<open>The loop counter \<^verbatim>\<open>attempt\<close> as a number.\<close>

definition num :: "nat \<Rightarrow> jsnum" where
  "num n = Fin (of_nat n)"

section \<open>Configuration (lines 6 to 19)\<close>

record config =
  TARGET :: "string option"
  TOPIC :: "string option"
  PAYLOAD :: string
  USER :: "string option"
  PASS :: "string option"
  maxAttempts :: jsnum
  baseDelayMs :: jsnum
  connectTimeout :: jsnum

text \<open>\<^verbatim>\<open>process.env.RELEASE_TAG || 'ci-test'\<close>: the default replaces a falsy entry.\<close>

definition or_string :: "string option \<Rightarrow> string \<Rightarrow> string" where
  "or_string v d = (case v of None \<Rightarrow> d | Some s \<Rightarrow> if s = [] then d else s)"

text \<open>
  \<^verbatim>\<open>Number(process.env.X || d)\<close>: a falsy entry gives the numeric default \<open>d\<close>; a
  non-empty string is converted by the built-in \<^verbatim>\<open>Number\<close>. The conversion of strings is
  part of the language, not of the script, and is a parameter of the model: every
  theorem below holds for every conversion function.
\<close>

definition or_number :: "(string \<Rightarrow> jsnum) \<Rightarrow> string option \<Rightarrow> rat \<Rightarrow> jsnum" where
  "or_number Number v d = (case v of None \<Rightarrow> Fin d | Some s \<Rightarrow> if s = [] then Fin d else Number s)"

definition load_config :: "(string \<Rightarrow> jsnum) \<Rightarrow> env \<Rightarrow> config" where
  "load_config Number e =
     \<lparr> TARGET = e ''MQTT_HOST'',
       TOPIC = e ''MQTT_PATH'',
       PAYLOAD = or_string (e ''RELEASE_TAG'') ''ci-test'',
       USER = e ''MQTT_USER'',
       PASS = e ''MQTT_PASSWORD'',
       maxAttempts = or_number Number (e ''MQTT_ATTEMPTS'') 4,
       baseDelayMs = or_number Number (e ''MQTT_RETRY_DELAY_MS'') 3000,
       connectTimeout = or_number Number (e ''MQTT_CONNECT_TIMEOUT_MS'') 15000 \<rparr>"

text \<open>
  A conversion function for concrete runs: the decimal value of a string of ASCII
  digits, NaN for every other string. It agrees with \<^verbatim>\<open>Number\<close> on strings of digits
  (whose value is below \<open>2^53\<close>) and on strings of letters other than \<^verbatim>\<open>Infinity\<close>; it is
  used only to instantiate the parameter at such strings.
\<close>

fun digits_value :: "nat \<Rightarrow> string \<Rightarrow> nat option" where
  "digits_value acc [] = Some acc"
| "digits_value acc (c # cs) =
     (if (48::nat) \<le> of_char c \<and> of_char c \<le> (57::nat)
      then digits_value (10 * acc + (of_char c - 48)) cs
      else None)"

definition Number_digits :: "string \<Rightarrow> jsnum" where
  "Number_digits s = (case digits_value 0 s of None \<Rightarrow> NaN | Some n \<Rightarrow> num n)"

section \<open>The retry loop (lines 95 to 114)\<close>

text \<open>
  The promise returned by \<^verbatim>\<open>publishOnce\<close>: pending, resolved, or rejected with an
  error (its message).
\<close>

datatype promise = Pending | Resolved | Rejected string

definition fails :: "promise \<Rightarrow> bool" where
  "fails p = (case p of Rejected m \<Rightarrow> True | _ \<Rightarrow> False)"

text \<open>
  What the loop does, in order: a call of \<^verbatim>\<open>publishOnce\<close> (with the value of
  \<^verbatim>\<open>attempt\<close>) and a call of \<^verbatim>\<open>sleep\<close> (with the delay it requests). Console output is
  left out.
\<close>

datatype trace_item = PublishOnce nat | Sleep jsnum

text \<open>
  How the script ends: a call of \<^verbatim>\<open>process.exit\<close>, the end of the async function with
  no such call, or an \<^verbatim>\<open>await\<close> on a promise that never settles.
\<close>

datatype outcome = ProcessExit nat | ScriptEnd | AwaitForever

text \<open>
  The exit status. A Node.js process whose script ends without \<^verbatim>\<open>process.exit\<close> and
  with nothing pending exits with status 0.
\<close>

definition exit_code :: "outcome \<Rightarrow> nat option" where
  "exit_code out = (case out of ProcessExit n \<Rightarrow> Some n | ScriptEnd \<Rightarrow> Some 0 | AwaitForever \<Rightarrow> None)"

text \<open>
  The \<^verbatim>\<open>for\<close> loop. \<open>pub k\<close> is the promise of the call of \<^verbatim>\<open>publishOnce\<close> made when
  \<^verbatim>\<open>attempt\<close> is \<open>k\<close>, as it finally settles; \<open>tr\<close> is the trace so far. The loop need
  not end (an infinite \<^verbatim>\<open>MQTT_ATTEMPTS\<close> with attempts that all fail), so the result is
  an option and \<open>None\<close> is non-termination.
\<close>

partial_function (option) main_loop ::
  "config \<Rightarrow> (nat \<Rightarrow> promise) \<Rightarrow> nat \<Rightarrow> trace_item list \<Rightarrow> (trace_item list \<times> outcome) option"
where
  "main_loop cfg pub attempt tr =
     (if js_le (num attempt) (maxAttempts cfg) then
        (case pub attempt of
           Resolved \<Rightarrow> Some (tr @ [PublishOnce attempt], ProcessExit 0)
         | Pending \<Rightarrow> Some (tr @ [PublishOnce attempt], AwaitForever)
         | Rejected m \<Rightarrow>
             if js_lt (num attempt) (maxAttempts cfg) then
               main_loop cfg pub (attempt + 1)
                 (tr @ [PublishOnce attempt,
                        Sleep (js_mul (baseDelayMs cfg) (Math_pow2 (int attempt - 1)))])
             else Some (tr @ [PublishOnce attempt], ProcessExit 1))
      else Some (tr, ScriptEnd))"

declare main_loop.simps [code]

definition main :: "config \<Rightarrow> (nat \<Rightarrow> promise) \<Rightarrow> (trace_item list \<times> outcome) option" where
  "main cfg pub = main_loop cfg pub 1 []"

text \<open>The whole script: the guard of lines 12 to 15, then the loop.\<close>

definition script ::
  "(string \<Rightarrow> jsnum) \<Rightarrow> env \<Rightarrow> (nat \<Rightarrow> promise) \<Rightarrow> (trace_item list \<times> outcome) option"
where
  "script Number e pub =
     (if \<not> truthy (TARGET (load_config Number e)) then Some ([], ProcessExit 2)
      else main (load_config Number e) pub)"

text \<open>
  The trace of the failed attempts \<open>a\<close>, ..., \<open>m - 1\<close>, each followed by its backoff:
  the expected shape of a run, against which the loop is compared.
\<close>

definition failed_attempts :: "config \<Rightarrow> nat \<Rightarrow> nat \<Rightarrow> trace_item list" where
  "failed_attempts cfg a m =
     concat (map (\<lambda>k. [PublishOnce k, Sleep (js_mul (baseDelayMs cfg) (Math_pow2 (int k - 1)))])
       [a..<m])"

text \<open>The attempts of a trace, in order.\<close>

fun attempts_of :: "trace_item list \<Rightarrow> nat list" where
  "attempts_of [] = []"
| "attempts_of (PublishOnce k # tr) = k # attempts_of tr"
| "attempts_of (Sleep d # tr) = attempts_of tr"

section \<open>A single attempt: publishOnce (lines 23 to 93)\<close>

text \<open>
  The transport headers of lines 25 to 34, in insertion order. The two access headers
  are added under \<^verbatim>\<open>process.env.CF_ACCESS_CLIENT_ID && process.env.CF_ACCESS_CLIENT_SECRET\<close>.
\<close>

definition wsHeaders :: "env \<Rightarrow> (string \<times> string) list" where
  "wsHeaders e =
     [(''sec-websocket-protocol'', ''mqtt''),
      (''User-Agent'', ''github-selfhosted-mqtt-publisher/1.0'')] @
     (case (e ''CF_ACCESS_CLIENT_ID'', e ''CF_ACCESS_CLIENT_SECRET'') of
        (Some i, Some s) \<Rightarrow>
          if i \<noteq> [] \<and> s \<noteq> []
          then [(''CF-Access-Client-Id'', i), (''CF-Access-Client-Secret'', s)]
          else []
      | _ \<Rightarrow> [])"

text \<open>The options object of lines 36 to 44.\<close>

record options =
  username :: "string option"
  password :: "string option"
  opt_connectTimeout :: jsnum
  reconnectPeriod :: nat
  wsOptions_headers :: "(string \<times> string) list"

definition mk_options :: "config \<Rightarrow> env \<Rightarrow> options" where
  "mk_options cfg e =
     \<lparr> username = USER cfg,
       password = PASS cfg,
       opt_connectTimeout = connectTimeout cfg,
       reconnectPeriod = 0,
       wsOptions_headers = wsHeaders e \<rparr>"

text \<open>
  The attempt is driven by what the runtime and the MQTT client deliver to the
  callbacks the script registers: the timer of line 54 firing, the client's
  \<^verbatim>\<open>connect\<close> and \<^verbatim>\<open>error\<close> events, the callback of \<^verbatim>\<open>client.publish\<close> (with an error or
  without), the callback of \<^verbatim>\<open>client.end\<close>, and the stream's \<^verbatim>\<open>response\<close> event. The
  client library is not part of the script; which events it delivers, and in which
  order, is the input of the model. A library call that throws is outside the model.
\<close>

datatype event =
    EvTimer
  | EvConnect
  | EvError string
  | EvPublishCb "string option"
  | EvEndCb
  | EvResponse

text \<open>
  What the script asks of the runtime and the client, in order: \<^verbatim>\<open>mqtt.connect\<close>,
  \<^verbatim>\<open>setTimeout\<close> with its delay, \<^verbatim>\<open>clearTimeout\<close>, \<^verbatim>\<open>client.publish\<close> with topic, payload
  and qos, \<^verbatim>\<open>client.end\<close> (forced or not, with a callback or not), and the promise's
  \<^verbatim>\<open>resolve\<close> and \<^verbatim>\<open>reject\<close>.
\<close>

datatype action =
    Connect "string option" options
  | SetTimeout jsnum
  | ClearTimeout
  | Publish "string option" string nat
  | End bool bool
  | Resolve
  | Reject string

text \<open>
  The state of one attempt: the flag \<^verbatim>\<open>timedOut\<close>, whether the timer is still set, the
  state of the promise, the number of publish callbacks and of end callbacks not yet
  called, and the actions so far.
\<close>

record pstate =
  timedOut :: bool
  timerArmed :: bool
  settled :: promise
  pubPending :: nat
  endPending :: nat
  actions :: "action list"

text \<open>A promise settles once: \<^verbatim>\<open>resolve\<close> and \<^verbatim>\<open>reject\<close> on a settled promise do nothing.\<close>

definition settle :: "promise \<Rightarrow> promise \<Rightarrow> promise" where
  "settle new old = (if old = Pending then new else old)"

text \<open>The executor up to line 60: connect, then set the timer.\<close>

definition publishOnce_start :: "config \<Rightarrow> env \<Rightarrow> pstate" where
  "publishOnce_start cfg e =
     \<lparr> timedOut = False,
       timerArmed = True,
       settled = Pending,
       pubPending = 0,
       endPending = 0,
       actions = [Connect (TARGET cfg) (mk_options cfg e),
                  SetTimeout (js_add (connectTimeout cfg) (Fin 5000))] \<rparr>"

text \<open>
  One callback. \<open>None\<close> is an event that cannot be delivered in the state: the timer
  fires once and not after \<^verbatim>\<open>clearTimeout\<close>, a callback is called only when its call is
  outstanding.
\<close>

fun step :: "config \<Rightarrow> pstate \<Rightarrow> event \<Rightarrow> pstate option" where
  "step cfg s EvTimer =
     (if timerArmed s then
        Some (s\<lparr> timerArmed := False,
                 timedOut := True,
                 settled := settle (Rejected ''connect timeout'') (settled s),
                 actions := actions s @ [End True False, Reject ''connect timeout''] \<rparr>)
      else None)"
| "step cfg s EvConnect =
     (if timedOut s then Some s
      else Some (s\<lparr> timerArmed := False,
                      pubPending := Suc (pubPending s),
                      actions := actions s @
                        [ClearTimeout, Publish (TOPIC cfg) (PAYLOAD cfg) 1] \<rparr>))"
| "step cfg s (EvPublishCb err) =
     (if pubPending s = 0 then None
      else case err of
          Some m \<Rightarrow>
            Some (s\<lparr> pubPending := pubPending s - 1,
                     settled := settle (Rejected m) (settled s),
                     actions := actions s @ [End True False, Reject m] \<rparr>)
        | None \<Rightarrow>
            Some (s\<lparr> pubPending := pubPending s - 1,
                     endPending := Suc (endPending s),
                     actions := actions s @ [End True True] \<rparr>))"
| "step cfg s EvEndCb =
     (if endPending s = 0 then None
      else Some (s\<lparr> endPending := endPending s - 1,
                      settled := settle Resolved (settled s),
                      actions := actions s @ [Resolve] \<rparr>))"
| "step cfg s (EvError m) =
     (if timedOut s then Some s
      else Some (s\<lparr> timerArmed := False,
                      settled := settle (Rejected m) (settled s),
                      actions := actions s @ [ClearTimeout, End True False, Reject m] \<rparr>))"
| "step cfg s EvResponse = Some s"

fun run_events :: "config \<Rightarrow> pstate \<Rightarrow> event list \<Rightarrow> pstate option" where
  "run_events cfg s [] = Some s"
| "run_events cfg s (ev # evs) =
     (case step cfg s ev of None \<Rightarrow> None | Some s' \<Rightarrow> run_events cfg s' evs)"

text \<open>The attempt on a sequence of events: the state it reaches, and its promise.\<close>

definition attempt :: "config \<Rightarrow> env \<Rightarrow> event list \<Rightarrow> pstate option" where
  "attempt cfg e evs = run_events cfg (publishOnce_start cfg e) evs"

definition publishOnce :: "config \<Rightarrow> env \<Rightarrow> event list \<Rightarrow> promise option" where
  "publishOnce cfg e evs = map_option settled (attempt cfg e evs)"







text \<open>
  The invariant behind a resolved promise: an outstanding publish callback has a
  \<^verbatim>\<open>connect\<close> event behind it, an outstanding end callback a successful publish callback
  after that, and a resolved promise an end callback after that.
\<close>

definition in_order :: "event list \<Rightarrow> pstate \<Rightarrow> bool" where
  "in_order evs s =
     ((0 < pubPending s \<longrightarrow> subseq [EvConnect] evs)
      \<and> (0 < endPending s \<longrightarrow> subseq [EvConnect, EvPublishCb None] evs)
      \<and> (settled s = Resolved \<longrightarrow> subseq [EvConnect, EvPublishCb None, EvEndCb] evs))"

section \<open>Facts about the numbers and the expected trace\<close>

lemma js_lt_num [simp]: "js_lt (num a) (num b) = (a < b)"
  by (simp add: num_def)

lemma js_le_num [simp]: "js_le (num a) (num b) = (a \<le> b)"
  by (simp add: num_def)

lemma js_lt_imp_le: "js_lt x y \<Longrightarrow> js_le x y"
  by (cases x; cases y) simp_all

lemma js_lt_below: "k < m \<Longrightarrow> js_le (num m) x \<Longrightarrow> js_lt (num k) x"
  by (cases x) (simp_all add: num_def)



lemma failed_attempts_Suc:
  "a \<le> m \<Longrightarrow> failed_attempts cfg a (Suc m) =
     failed_attempts cfg a m @
       [PublishOnce m, Sleep (js_mul (baseDelayMs cfg) (Math_pow2 (int m - 1)))]"
  by (simp add: failed_attempts_def)

lemma failed_attempts_same [simp]: "failed_attempts cfg a a = []"
  by (simp add: failed_attempts_def)

lemma attempts_of_append: "attempts_of (xs @ ys) = attempts_of xs @ attempts_of ys"
  by (induction xs rule: attempts_of.induct) simp_all

lemma attempts_of_failed: "attempts_of (failed_attempts cfg a m) = [a..<m]"
proof (induction m)
  case 0
  then show ?case by (simp add: failed_attempts_def)
next
  case (Suc m)
  show ?case
  proof (cases "a \<le> m")
    case True
    with Suc show ?thesis by (simp add: failed_attempts_Suc attempts_of_append)
  next
    case False
    then show ?thesis by (simp add: failed_attempts_def)
  qed
qed

section \<open>The retry loop: termination and shape of the run\<close>

text \<open>One turn of the loop on a rejected attempt that is not the last.\<close>

lemma main_loop_rejected:
  assumes "fails (pub a)" "js_lt (num a) (maxAttempts cfg)"
  shows "main_loop cfg pub a tr =
         main_loop cfg pub (Suc a)
           (tr @ [PublishOnce a, Sleep (js_mul (baseDelayMs cfg) (Math_pow2 (int a - 1)))])"
proof -
  from assms(1) obtain m where "pub a = Rejected m"
    by (cases "pub a") (simp_all add: fails_def)
  moreover from assms(2) have "js_le (num a) (maxAttempts cfg)"
    by (rule js_lt_imp_le)
  ultimately show ?thesis
    using assms(2) by (subst main_loop.simps) simp
qed

text \<open>A run of rejected attempts \<open>a\<close>, ..., \<open>m - 1\<close>, none of them the last.\<close>

lemma main_loop_failures:
  assumes "a \<le> m"
    and "\<And>k. a \<le> k \<Longrightarrow> k < m \<Longrightarrow> fails (pub k)"
    and "\<And>k. a \<le> k \<Longrightarrow> k < m \<Longrightarrow> js_lt (num k) (maxAttempts cfg)"
  shows "main_loop cfg pub a tr = main_loop cfg pub m (tr @ failed_attempts cfg a m)"
  using assms
proof (induction m)
  case 0
  then show ?case by simp
next
  case (Suc m)
  show ?case
  proof (cases "a = Suc m")
    case True
    then show ?thesis by simp
  next
    case False
    with Suc.prems(1) have am: "a \<le> m" by simp
    have "main_loop cfg pub a tr = main_loop cfg pub m (tr @ failed_attempts cfg a m)"
      using am Suc.prems(2,3) by (intro Suc.IH) simp_all
    also have "\<dots> = main_loop cfg pub (Suc m)
        ((tr @ failed_attempts cfg a m) @
          [PublishOnce m, Sleep (js_mul (baseDelayMs cfg) (Math_pow2 (int m - 1)))])"
      using am Suc.prems(2,3) by (intro main_loop_rejected) simp_all
    finally show ?thesis
      using am by (simp add: failed_attempts_Suc)
  qed
qed

lemma main_all_fail:
  assumes "0 < N" "maxAttempts cfg = num N" "\<And>k. 1 \<le> k \<Longrightarrow> k \<le> N \<Longrightarrow> fails (pub k)"
  shows "main cfg pub = Some (failed_attempts cfg 1 N @ [PublishOnce N], ProcessExit 1)"
proof -
  have "main cfg pub = main_loop cfg pub N ([] @ failed_attempts cfg 1 N)"
    unfolding main_def using assms by (intro main_loop_failures) simp_all
  moreover obtain m where "pub N = Rejected m"
    using assms(3)[of N] assms(1) by (cases "pub N") (simp_all add: fails_def)
  ultimately show ?thesis
    using assms(2) by (simp add: main_loop.simps)
qed




text \<open>The loop never calls \<^verbatim>\<open>process.exit(2)\<close>.\<close>

lemma main_loop_not_exit_2:
  assumes "main_loop cfg pub a tr = Some y"
  shows "snd y \<noteq> ProcessExit 2"
proof (rule main_loop.raw_induct [where P = "\<lambda>c p a t y. snd y \<noteq> ProcessExit 2", OF _ assms])
  fix f :: "config \<Rightarrow> (nat \<Rightarrow> promise) \<Rightarrow> nat \<Rightarrow> trace_item list \<Rightarrow> (trace_item list \<times> outcome) option"
    and c :: config and p a t y
  assume "\<And>c p a t y. f c p a t = Some y \<Longrightarrow> snd y \<noteq> ProcessExit 2"
    and "(if js_le (num a) (maxAttempts c) then
        (case p a of
           Resolved \<Rightarrow> Some (t @ [PublishOnce a], ProcessExit 0)
         | Pending \<Rightarrow> Some (t @ [PublishOnce a], AwaitForever)
         | Rejected m \<Rightarrow>
             if js_lt (num a) (maxAttempts c) then
               f c p (a + 1)
                 (t @ [PublishOnce a,
                        Sleep (js_mul (baseDelayMs c) (Math_pow2 (int a - 1)))])
             else Some (t @ [PublishOnce a], ProcessExit 1))
      else Some (t, ScriptEnd)) = Some y"
  then show "snd y \<noteq> ProcessExit 2"
    by (fastforce split: if_splits promise.splits)
qed

text \<open>
  When the attempts before \<open>k\<close> are rejected and \<open>k\<close> is within the budget, the loop
  arrives at attempt \<open>k\<close> with the trace of those attempts and their backoffs.
\<close>

lemma main_reaches:
  assumes "1 \<le> k" "js_le (num k) (maxAttempts cfg)"
    and "\<And>j. 1 \<le> j \<Longrightarrow> j < k \<Longrightarrow> fails (pub j)"
  shows "main cfg pub = main_loop cfg pub k (failed_attempts cfg 1 k)"
proof -
  have "main_loop cfg pub 1 [] = main_loop cfg pub k ([] @ failed_attempts cfg 1 k)"
    using assms by (intro main_loop_failures) (simp_all add: js_lt_below)
  then show ?thesis by (simp add: main_def)
qed


section \<open>A single attempt: invariants of the event handlers\<close>



















lemma subseq_snoc: "subseq xs ys \<Longrightarrow> subseq (xs @ [a]) (ys @ [a])"
  by (rule list_emb_append_mono) simp_all

lemma step_in_order:
  assumes "step cfg s ev = Some s'" "in_order evs s"
  shows "in_order (evs @ [ev]) s'"
proof -
  have keep: "\<And>xs. subseq xs evs \<Longrightarrow> subseq xs (evs @ [ev])"
    by (rule subseq_rev_drop_many)
  show ?thesis
  proof (cases ev)
    case EvTimer
    with assms keep show ?thesis
      by (auto simp: in_order_def settle_def split: if_splits)
  next
    case EvConnect
    have "subseq ([] @ [EvConnect]) (evs @ [EvConnect])"
      by (rule subseq_snoc) simp
    with EvConnect assms keep show ?thesis
      by (auto simp: in_order_def split: if_splits)
  next
    case (EvError m)
    with assms keep show ?thesis
      by (auto simp: in_order_def settle_def split: if_splits)
  next
    case (EvPublishCb err)
    from assms EvPublishCb have "subseq [EvConnect] evs"
      by (auto simp: in_order_def split: if_splits)
    then have "subseq ([EvConnect] @ [EvPublishCb None]) (evs @ [EvPublishCb None])"
      by (rule subseq_snoc)
    with EvPublishCb assms keep show ?thesis
      by (auto simp: in_order_def settle_def split: if_splits option.splits)
  next
    case EvEndCb
    from assms EvEndCb have "subseq [EvConnect, EvPublishCb None] evs"
      by (auto simp: in_order_def split: if_splits)
    then have "subseq ([EvConnect, EvPublishCb None] @ [EvEndCb]) (evs @ [EvEndCb])"
      by (rule subseq_snoc)
    with EvEndCb assms keep show ?thesis
      by (auto simp: in_order_def settle_def split: if_splits)
  next
    case EvResponse
    with assms keep show ?thesis
      by (auto simp: in_order_def)
  qed
qed

lemma run_in_order:
  "run_events cfg s evs = Some s' \<Longrightarrow> in_order pre s \<Longrightarrow> in_order (pre @ evs) s'"
proof (induction evs arbitrary: s pre)
  case Nil
  then show ?case by simp
next
  case (Cons ev evs)
  from Cons.prems(1) obtain s1 where s1: "step cfg s ev = Some s1"
    and r: "run_events cfg s1 evs = Some s'"
    by (auto split: option.splits)
  from Cons.IH [OF r step_in_order [OF s1 Cons.prems(2)]] show ?case by simp
qed

lemma in_order_start: "in_order [] (publishOnce_start cfg e)"
  by (simp add: in_order_def publishOnce_start_def)

section \<open>Claims about the retry loop\<close>

text \<open>
  C1. For every attempt budget \<open>N\<close> (\<^verbatim>\<open>maxAttempts\<close> is the positive whole number \<open>N\<close>):
  if every call of \<^verbatim>\<open>publishOnce\<close> fails, the loop returns, it has made exactly the
  attempts 1, ..., \<open>N\<close> in this order, each but the last followed by its backoff, and the
  process ends by \<^verbatim>\<open>process.exit(1)\<close>.
\<close>

theorem all_attempts_fail_exit_1:
  assumes "0 < N"
    and "maxAttempts cfg = num N"
    and "\<forall>k. 1 \<le> k \<and> k \<le> N \<longrightarrow> fails (pub k)"
  shows "main cfg pub = Some (failed_attempts cfg 1 N @ [PublishOnce N], ProcessExit 1)
       \<and> attempts_of (failed_attempts cfg 1 N @ [PublishOnce N]) = [1..<Suc N]
       \<and> length (attempts_of (failed_attempts cfg 1 N @ [PublishOnce N])) = N
       \<and> exit_code (ProcessExit 1) = Some 1"
proof -
  have "main cfg pub = Some (failed_attempts cfg 1 N @ [PublishOnce N], ProcessExit 1)"
    using assms by (intro main_all_fail) simp_all
  moreover have "attempts_of (failed_attempts cfg 1 N @ [PublishOnce N]) = [1..<Suc N]"
    using assms(1) by (simp add: attempts_of_append attempts_of_failed)
  ultimately show ?thesis
    by (simp add: exit_code_def)
qed

theorem all_attempts_fail_exit_1_witness:
  "maxAttempts (load_config Number_digits
       [''MQTT_HOST'' \<mapsto> ''wss://broker'', ''MQTT_ATTEMPTS'' \<mapsto> ''3'']) = num 3
   \<and> main (load_config Number_digits
         [''MQTT_HOST'' \<mapsto> ''wss://broker'', ''MQTT_ATTEMPTS'' \<mapsto> ''3''])
        (\<lambda>k. Rejected ''connect timeout'') =
      Some ([PublishOnce 1, Sleep (Fin 3000), PublishOnce 2, Sleep (Fin 6000), PublishOnce 3],
            ProcessExit 1)"
proof -
  let ?cfg = "load_config Number_digits
    [''MQTT_HOST'' \<mapsto> ''wss://broker'', ''MQTT_ATTEMPTS'' \<mapsto> ''3'']"
  let ?pub = "\<lambda>k::nat. Rejected ''connect timeout''"
  have h1: "(0::nat) < 3" by simp
  have h2: "maxAttempts ?cfg = num 3"
    by (simp add: load_config_def or_number_def Number_digits_def)
  have h3: "\<forall>k. 1 \<le> k \<and> k \<le> 3 \<longrightarrow> fails (?pub k)"
    by (simp add: fails_def)
  have b: "baseDelayMs ?cfg = Fin 3000"
    by (simp add: load_config_def or_number_def)
  from all_attempts_fail_exit_1 [OF h1 h2 h3] h2 b show ?thesis
    by (simp add: failed_attempts_def Math_pow2_def upt_rec)
qed

text \<open>
  C2. If attempt \<open>m\<close> succeeds, with \<open>m\<close> from 1 up to the budget (the attempts before
  it having failed, so that attempt \<open>m\<close> is made), the run is the attempts 1, ..., \<open>m\<close>
  and nothing after attempt \<open>m\<close>: no later attempt is started, and the process ends at
  once by \<^verbatim>\<open>process.exit(0)\<close>. The budget is any number with \<open>m \<le> maxAttempts\<close>, in
  particular a whole number \<open>N\<close> with \<open>m \<le> N\<close>.
\<close>

theorem success_stops_retrying:
  assumes "1 \<le> m"
    and "js_le (num m) (maxAttempts cfg)"
    and "\<forall>k. 1 \<le> k \<and> k < m \<longrightarrow> fails (pub k)"
    and "pub m = Resolved"
  shows "main cfg pub = Some (failed_attempts cfg 1 m @ [PublishOnce m], ProcessExit 0)
       \<and> attempts_of (failed_attempts cfg 1 m @ [PublishOnce m]) = [1..<Suc m]
       \<and> exit_code (ProcessExit 0) = Some 0"
proof -
  have "main cfg pub = main_loop cfg pub m (failed_attempts cfg 1 m)"
    using assms(1,2,3) by (intro main_reaches) simp_all
  then have "main cfg pub = Some (failed_attempts cfg 1 m @ [PublishOnce m], ProcessExit 0)"
    using assms(2,4) by (simp add: main_loop.simps)
  moreover have "attempts_of (failed_attempts cfg 1 m @ [PublishOnce m]) = [1..<Suc m]"
    using assms(1) by (simp add: attempts_of_append attempts_of_failed)
  ultimately show ?thesis
    by (simp add: exit_code_def)
qed

theorem success_stops_retrying_witness:
  "js_le (num 2) (maxAttempts (load_config Number_digits [''MQTT_HOST'' \<mapsto> ''wss://broker'']))
   \<and> main (load_config Number_digits [''MQTT_HOST'' \<mapsto> ''wss://broker''])
        (\<lambda>k. if k = 2 then Resolved else Rejected ''connect timeout'') =
      Some ([PublishOnce 1, Sleep (Fin 3000), PublishOnce 2], ProcessExit 0)"
proof -
  let ?cfg = "load_config Number_digits [''MQTT_HOST'' \<mapsto> ''wss://broker'']"
  let ?pub = "\<lambda>k::nat. if k = 2 then Resolved else Rejected ''connect timeout''"
  have h1: "(1::nat) \<le> 2" by simp
  have h2: "js_le (num 2) (maxAttempts ?cfg)"
    by (simp add: load_config_def or_number_def num_def)
  have h4: "\<forall>k. 1 \<le> k \<and> k < 2 \<longrightarrow> fails (?pub k)"
    by (simp add: fails_def)
  have h5: "?pub 2 = Resolved" by simp
  have b: "baseDelayMs ?cfg = Fin 3000"
    by (simp add: load_config_def or_number_def)
  from success_stops_retrying [OF h1 h2 h4 h5] h2 b show ?thesis
    by (simp add: failed_attempts_def Math_pow2_def upt_rec)
qed




section \<open>Claims about the configuration\<close>

text \<open>
  A call of \<^verbatim>\<open>publishOnce\<close> is the only place where the script calls \<^verbatim>\<open>mqtt.connect\<close>
  (line 51), so a run with the empty trace makes no connection.

  The guard of line 12 is \<^verbatim>\<open>!TARGET\<close>: it also fires when \<^verbatim>\<open>MQTT_HOST\<close> is present and
  empty, here with an attempt that would succeed.
\<close>

theorem host_guard_counterexample:
  "[''MQTT_HOST'' \<mapsto> ''''] ''MQTT_HOST'' = Some ''''
   \<and> script Number_digits [''MQTT_HOST'' \<mapsto> ''''] (\<lambda>k. Resolved) = Some ([], ProcessExit 2)"
  by (simp add: script_def load_config_def truthy_def)

text \<open>
  C4, as the code has it. If \<^verbatim>\<open>MQTT_HOST\<close> is absent or is the empty string, the process
  ends by \<^verbatim>\<open>process.exit(2)\<close> with no call of \<^verbatim>\<open>publishOnce\<close>, hence no connection; and a
  run ends by \<^verbatim>\<open>process.exit(2)\<close> only in this case.
\<close>

theorem exit_2_iff_host_missing:
  "(e ''MQTT_HOST'' = None \<or> e ''MQTT_HOST'' = Some [] \<longrightarrow>
      script Number e pub = Some ([], ProcessExit 2))
   \<and> (\<forall>tr. script Number e pub = Some (tr, ProcessExit 2) \<longrightarrow>
      (e ''MQTT_HOST'' = None \<or> e ''MQTT_HOST'' = Some []) \<and> tr = [])"
proof (intro conjI impI allI)
  assume "e ''MQTT_HOST'' = None \<or> e ''MQTT_HOST'' = Some []"
  then show "script Number e pub = Some ([], ProcessExit 2)"
    by (auto simp: script_def load_config_def truthy_def)
next
  fix tr
  assume r: "script Number e pub = Some (tr, ProcessExit 2)"
  have "\<not> truthy (e ''MQTT_HOST'')"
  proof
    assume "truthy (e ''MQTT_HOST'')"
    with r have "main_loop (load_config Number e) pub 1 [] = Some (tr, ProcessExit 2)"
      by (simp add: script_def main_def load_config_def)
    from main_loop_not_exit_2 [OF this] show False by simp
  qed
  then show "e ''MQTT_HOST'' = None \<or> e ''MQTT_HOST'' = Some []"
    by (simp add: truthy_def split: option.splits)
  with r show "tr = []"
    by (auto simp: script_def load_config_def truthy_def)
qed

theorem exit_2_iff_host_missing_witness:
  "script Number_digits Map.empty (\<lambda>k. Resolved) = Some ([], ProcessExit 2)
   \<and> script Number_digits [''MQTT_HOST'' \<mapsto> ''''] (\<lambda>k. Resolved) = Some ([], ProcessExit 2)"
  using exit_2_iff_host_missing [of Map.empty Number_digits "\<lambda>k. Resolved"]
    exit_2_iff_host_missing [of "[''MQTT_HOST'' \<mapsto> '''']" Number_digits "\<lambda>k. Resolved"]
  by simp

text \<open>
  C9. When the variable is absent, the attempt count is 4, the base backoff delay 3000,
  the connect timeout 15000 and the payload \<^verbatim>\<open>ci-test\<close>, whatever the conversion of strings
  to numbers is.
\<close>

theorem config_defaults:
  "(e ''MQTT_ATTEMPTS'' = None \<longrightarrow> maxAttempts (load_config Number e) = Fin 4)
   \<and> (e ''MQTT_RETRY_DELAY_MS'' = None \<longrightarrow> baseDelayMs (load_config Number e) = Fin 3000)
   \<and> (e ''MQTT_CONNECT_TIMEOUT_MS'' = None \<longrightarrow> connectTimeout (load_config Number e) = Fin 15000)
   \<and> (e ''RELEASE_TAG'' = None \<longrightarrow> PAYLOAD (load_config Number e) = ''ci-test'')"
  by (simp add: load_config_def or_number_def or_string_def)

theorem config_defaults_witness:
  "maxAttempts (load_config Number_digits [''MQTT_HOST'' \<mapsto> ''wss://broker'']) = Fin 4
   \<and> baseDelayMs (load_config Number_digits [''MQTT_HOST'' \<mapsto> ''wss://broker'']) = Fin 3000
   \<and> connectTimeout (load_config Number_digits [''MQTT_HOST'' \<mapsto> ''wss://broker'']) = Fin 15000
   \<and> PAYLOAD (load_config Number_digits [''MQTT_HOST'' \<mapsto> ''wss://broker'']) = ''ci-test''"
  using config_defaults [of "[''MQTT_HOST'' \<mapsto> ''wss://broker'']" Number_digits]
  by simp

text \<open>
  With \<^verbatim>\<open>MQTT_HOST\<close> present and empty the guard of line 12 fires before
  \<^verbatim>\<open>MQTT_ATTEMPTS\<close> is read, and the exit status is 2.
\<close>

theorem zero_budget_counterexample:
  "[''MQTT_HOST'' \<mapsto> '''', ''MQTT_ATTEMPTS'' \<mapsto> ''0''] ''MQTT_HOST'' = Some ''''
   \<and> Number_digits ''0'' = Fin 0
   \<and> script Number_digits [''MQTT_HOST'' \<mapsto> '''', ''MQTT_ATTEMPTS'' \<mapsto> ''0'']
        (\<lambda>k. Resolved) = Some ([], ProcessExit 2)
   \<and> exit_code (ProcessExit 2) = Some 2"
  by (simp add: script_def load_config_def truthy_def exit_code_def Number_digits_def num_def)

text \<open>
  C10, as the code has it. If \<^verbatim>\<open>MQTT_HOST\<close> is a non-empty string and \<^verbatim>\<open>MQTT_ATTEMPTS\<close> is
  a non-empty string that converts to 0 or to NaN, the loop body never runs: the trace
  is empty (no connection, no publish), the script ends without \<^verbatim>\<open>process.exit\<close>, and
  the exit status is 0.
\<close>

theorem zero_budget_exit_0:
  assumes "e ''MQTT_HOST'' = Some h" and "h \<noteq> []"
    and "e ''MQTT_ATTEMPTS'' = Some s" and "s \<noteq> []"
    and "Number s = Fin 0 \<or> Number s = NaN"
  shows "script Number e pub = Some ([], ScriptEnd) \<and> exit_code ScriptEnd = Some 0"
proof -
  from assms(3,4) have "maxAttempts (load_config Number e) = Number s"
    by (simp add: load_config_def or_number_def)
  with assms(5) have "\<not> js_le (num 1) (maxAttempts (load_config Number e))"
    by (auto simp: num_def)
  then have "main (load_config Number e) pub = Some ([], ScriptEnd)"
    unfolding main_def by (subst main_loop.simps) simp
  moreover from assms(1,2) have "truthy (TARGET (load_config Number e))"
    by (simp add: load_config_def truthy_def)
  ultimately show ?thesis
    by (simp add: script_def exit_code_def)
qed

theorem zero_budget_exit_0_witness:
  "script Number_digits [''MQTT_HOST'' \<mapsto> ''wss://broker'', ''MQTT_ATTEMPTS'' \<mapsto> ''0'']
        (\<lambda>k. Resolved) = Some ([], ScriptEnd)
   \<and> script Number_digits [''MQTT_HOST'' \<mapsto> ''wss://broker'', ''MQTT_ATTEMPTS'' \<mapsto> ''abc'']
        (\<lambda>k. Resolved) = Some ([], ScriptEnd)
   \<and> exit_code ScriptEnd = Some 0"
proof -
  let ?e0 = "[''MQTT_HOST'' \<mapsto> ''wss://broker'', ''MQTT_ATTEMPTS'' \<mapsto> ''0'']"
  let ?e1 = "[''MQTT_HOST'' \<mapsto> ''wss://broker'', ''MQTT_ATTEMPTS'' \<mapsto> ''abc'']"
  have a: "?e0 ''MQTT_HOST'' = Some ''wss://broker''" "?e1 ''MQTT_HOST'' = Some ''wss://broker''"
    and b: "''wss://broker'' \<noteq> []"
    and c: "?e0 ''MQTT_ATTEMPTS'' = Some ''0''" "?e1 ''MQTT_ATTEMPTS'' = Some ''abc''"
    and d: "''0'' \<noteq> []" "''abc'' \<noteq> []"
    by simp_all
  have n0: "Number_digits ''0'' = Fin 0 \<or> Number_digits ''0'' = NaN"
    by (simp add: Number_digits_def num_def)
  have n1: "Number_digits ''abc'' = Fin 0 \<or> Number_digits ''abc'' = NaN"
    by (simp add: Number_digits_def)
  from zero_budget_exit_0 [where e = ?e0 and Number = Number_digits and pub = "\<lambda>k. Resolved",
         OF a(1) b c(1) d(1) n0]
       zero_budget_exit_0 [where e = ?e1 and Number = Number_digits and pub = "\<lambda>k. Resolved",
         OF a(2) b c(2) d(2) n1]
  show ?thesis by simp
qed

section \<open>Claims about a single attempt\<close>




text \<open>
  Both access variables present in the environment, one of them empty: the test of line
  31 is falsy and neither header is added.
\<close>

theorem access_headers_counterexample:
  "[''CF_ACCESS_CLIENT_ID'' \<mapsto> '''', ''CF_ACCESS_CLIENT_SECRET'' \<mapsto> ''s3cret'']
       ''CF_ACCESS_CLIENT_ID'' = Some ''''
   \<and> [''CF_ACCESS_CLIENT_ID'' \<mapsto> '''', ''CF_ACCESS_CLIENT_SECRET'' \<mapsto> ''s3cret'']
       ''CF_ACCESS_CLIENT_SECRET'' = Some ''s3cret''
   \<and> wsHeaders [''CF_ACCESS_CLIENT_ID'' \<mapsto> '''', ''CF_ACCESS_CLIENT_SECRET'' \<mapsto> ''s3cret''] =
       [(''sec-websocket-protocol'', ''mqtt''),
        (''User-Agent'', ''github-selfhosted-mqtt-publisher/1.0'')]"
  by (simp add: wsHeaders_def)

text \<open>
  C6, as the code has it. The headers \<^verbatim>\<open>CF-Access-Client-Id\<close> and \<^verbatim>\<open>CF-Access-Client-Secret\<close>
  are among the transport headers if and only if \<^verbatim>\<open>CF_ACCESS_CLIENT_ID\<close> and
  \<^verbatim>\<open>CF_ACCESS_CLIENT_SECRET\<close> are both present and non-empty, and then they carry the two
  values; otherwise (in particular when exactly one of the two is set) the headers are
  the two fixed ones only. The headers are those of the options passed to
  \<^verbatim>\<open>mqtt.connect\<close>. No branch of \<open>wsHeaders\<close> is an error.
\<close>

theorem access_headers_iff_both_nonempty:
  "(map_of (wsHeaders e) ''CF-Access-Client-Id'' \<noteq> None) =
      (truthy (e ''CF_ACCESS_CLIENT_ID'') \<and> truthy (e ''CF_ACCESS_CLIENT_SECRET''))
   \<and> (map_of (wsHeaders e) ''CF-Access-Client-Secret'' \<noteq> None) =
      (truthy (e ''CF_ACCESS_CLIENT_ID'') \<and> truthy (e ''CF_ACCESS_CLIENT_SECRET''))
   \<and> (truthy (e ''CF_ACCESS_CLIENT_ID'') \<and> truthy (e ''CF_ACCESS_CLIENT_SECRET'') \<longrightarrow>
        map_of (wsHeaders e) ''CF-Access-Client-Id'' = e ''CF_ACCESS_CLIENT_ID''
        \<and> map_of (wsHeaders e) ''CF-Access-Client-Secret'' = e ''CF_ACCESS_CLIENT_SECRET'')
   \<and> (\<not> (truthy (e ''CF_ACCESS_CLIENT_ID'') \<and> truthy (e ''CF_ACCESS_CLIENT_SECRET'')) \<longrightarrow>
        wsHeaders e = [(''sec-websocket-protocol'', ''mqtt''),
                       (''User-Agent'', ''github-selfhosted-mqtt-publisher/1.0'')])
   \<and> hd (actions (publishOnce_start cfg e)) = Connect (TARGET cfg) (mk_options cfg e)
   \<and> wsOptions_headers (mk_options cfg e) = wsHeaders e"
  by (auto simp: wsHeaders_def truthy_def publishOnce_start_def mk_options_def
           split: option.splits)

theorem access_headers_iff_both_nonempty_witness:
  "wsHeaders [''CF_ACCESS_CLIENT_ID'' \<mapsto> ''id'', ''CF_ACCESS_CLIENT_SECRET'' \<mapsto> ''s3cret''] =
       [(''sec-websocket-protocol'', ''mqtt''),
        (''User-Agent'', ''github-selfhosted-mqtt-publisher/1.0''),
        (''CF-Access-Client-Id'', ''id''),
        (''CF-Access-Client-Secret'', ''s3cret'')]
   \<and> map_of (wsHeaders [''CF_ACCESS_CLIENT_ID'' \<mapsto> ''id'', ''CF_ACCESS_CLIENT_SECRET'' \<mapsto> ''s3cret''])
       ''CF-Access-Client-Id'' = Some ''id''
   \<and> wsHeaders [''CF_ACCESS_CLIENT_SECRET'' \<mapsto> ''s3cret''] =
       [(''sec-websocket-protocol'', ''mqtt''),
        (''User-Agent'', ''github-selfhosted-mqtt-publisher/1.0'')]"
  using access_headers_iff_both_nonempty
          [of "[''CF_ACCESS_CLIENT_ID'' \<mapsto> ''id'', ''CF_ACCESS_CLIENT_SECRET'' \<mapsto> ''s3cret'']"]
        access_headers_iff_both_nonempty [of "[''CF_ACCESS_CLIENT_SECRET'' \<mapsto> ''s3cret'']"]
  by (simp add: wsHeaders_def truthy_def)

text \<open>
  C7. Within a single attempt: a \<^verbatim>\<open>connect\<close> event before the timeout cancels the timer
  and publishes the configured payload to the configured topic with qos 1; a publish
  callback with an error calls \<^verbatim>\<open>client.end(true)\<close> and rejects the promise; a publish
  callback without an error calls \<^verbatim>\<open>client.end(true, cb)\<close> and leaves the promise as it
  is; the end callback resolves it. A promise is resolved only when a \<^verbatim>\<open>connect\<close> event, a
  publish callback without an error and an end callback were delivered, in this order.
\<close>

theorem connect_publishes_qos1:
  "(\<forall>s. \<not> timedOut s \<longrightarrow>
      (\<exists>s'. step cfg s EvConnect = Some s'
         \<and> actions s' = actions s @ [ClearTimeout, Publish (TOPIC cfg) (PAYLOAD cfg) 1]
         \<and> settled s' = settled s))
   \<and> (\<forall>s m. 0 < pubPending s \<longrightarrow>
      (\<exists>s'. step cfg s (EvPublishCb (Some m)) = Some s'
         \<and> actions s' = actions s @ [End True False, Reject m]
         \<and> settled s' = settle (Rejected m) (settled s)))
   \<and> (\<forall>s. 0 < pubPending s \<longrightarrow>
      (\<exists>s'. step cfg s (EvPublishCb None) = Some s'
         \<and> actions s' = actions s @ [End True True]
         \<and> settled s' = settled s))
   \<and> (\<forall>s. 0 < endPending s \<longrightarrow>
      (\<exists>s'. step cfg s EvEndCb = Some s'
         \<and> actions s' = actions s @ [Resolve]
         \<and> settled s' = settle Resolved (settled s)))
   \<and> (\<forall>evs s. attempt cfg e evs = Some s \<and> settled s = Resolved \<longrightarrow>
        subseq [EvConnect, EvPublishCb None, EvEndCb] evs)
   \<and> publishOnce cfg e [EvConnect] = Some Pending
   \<and> publishOnce cfg e [EvConnect, EvPublishCb (Some m)] = Some (Rejected m)
   \<and> publishOnce cfg e [EvConnect, EvPublishCb None] = Some Pending
   \<and> publishOnce cfg e [EvConnect, EvPublishCb None, EvEndCb] = Some Resolved"
proof -
  have c1: "\<forall>s. \<not> timedOut s \<longrightarrow>
      (\<exists>s'. step cfg s EvConnect = Some s'
         \<and> actions s' = actions s @ [ClearTimeout, Publish (TOPIC cfg) (PAYLOAD cfg) 1]
         \<and> settled s' = settled s)"
    by simp
  have c2: "\<forall>s m. 0 < pubPending s \<longrightarrow>
      (\<exists>s'. step cfg s (EvPublishCb (Some m)) = Some s'
         \<and> actions s' = actions s @ [End True False, Reject m]
         \<and> settled s' = settle (Rejected m) (settled s))"
    by simp
  have c3: "\<forall>s. 0 < pubPending s \<longrightarrow>
      (\<exists>s'. step cfg s (EvPublishCb None) = Some s'
         \<and> actions s' = actions s @ [End True True]
         \<and> settled s' = settled s)"
    by simp
  have c4: "\<forall>s. 0 < endPending s \<longrightarrow>
      (\<exists>s'. step cfg s EvEndCb = Some s'
         \<and> actions s' = actions s @ [Resolve]
         \<and> settled s' = settle Resolved (settled s))"
    by simp
  have c5: "\<forall>evs s. attempt cfg e evs = Some s \<and> settled s = Resolved \<longrightarrow>
        subseq [EvConnect, EvPublishCb None, EvEndCb] evs"
  proof (intro allI impI)
    fix evs s
    assume h: "attempt cfg e evs = Some s \<and> settled s = Resolved"
    then have "run_events cfg (publishOnce_start cfg e) evs = Some s"
      by (simp add: attempt_def)
    from run_in_order [OF this in_order_start] h
    show "subseq [EvConnect, EvPublishCb None, EvEndCb] evs"
      by (simp add: in_order_def)
  qed
  have c6: "publishOnce cfg e [EvConnect] = Some Pending"
    and c7: "publishOnce cfg e [EvConnect, EvPublishCb (Some m)] = Some (Rejected m)"
    and c8: "publishOnce cfg e [EvConnect, EvPublishCb None] = Some Pending"
    and c9: "publishOnce cfg e [EvConnect, EvPublishCb None, EvEndCb] = Some Resolved"
    by (simp_all add: publishOnce_def attempt_def publishOnce_start_def settle_def)
  from c1 c2 c3 c4 c5 c6 c7 c8 c9 show ?thesis by (intro conjI)
qed

theorem connect_publishes_qos1_witness:
  "map_option actions
     (attempt
        (load_config Number_digits
           [''MQTT_HOST'' \<mapsto> ''wss://broker'', ''MQTT_PATH'' \<mapsto> ''releases'',
            ''RELEASE_TAG'' \<mapsto> ''v1.2.3''])
        [''MQTT_HOST'' \<mapsto> ''wss://broker'', ''MQTT_PATH'' \<mapsto> ''releases'',
         ''RELEASE_TAG'' \<mapsto> ''v1.2.3'']
        [EvConnect, EvPublishCb None, EvEndCb]) =
     Some [Connect (Some ''wss://broker'')
             \<lparr> username = None, password = None, opt_connectTimeout = Fin 15000,
               reconnectPeriod = 0,
               wsOptions_headers =
                 [(''sec-websocket-protocol'', ''mqtt''),
                  (''User-Agent'', ''github-selfhosted-mqtt-publisher/1.0'')] \<rparr>,
           SetTimeout (Fin 20000),
           ClearTimeout,
           Publish (Some ''releases'') ''v1.2.3'' 1,
           End True True,
           Resolve]
   \<and> publishOnce
        (load_config Number_digits
           [''MQTT_HOST'' \<mapsto> ''wss://broker'', ''MQTT_PATH'' \<mapsto> ''releases'',
            ''RELEASE_TAG'' \<mapsto> ''v1.2.3''])
        [''MQTT_HOST'' \<mapsto> ''wss://broker'', ''MQTT_PATH'' \<mapsto> ''releases'',
         ''RELEASE_TAG'' \<mapsto> ''v1.2.3'']
        [EvConnect, EvPublishCb None, EvEndCb] = Some Resolved
   \<and> subseq [EvConnect, EvPublishCb None, EvEndCb] [EvConnect, EvPublishCb None, EvEndCb]"
proof -
  let ?e = "[''MQTT_HOST'' \<mapsto> ''wss://broker'', ''MQTT_PATH'' \<mapsto> ''releases'',
            ''RELEASE_TAG'' \<mapsto> ''v1.2.3'']"
  let ?cfg = "load_config Number_digits ?e"
  have a: "map_option actions (attempt ?cfg ?e [EvConnect, EvPublishCb None, EvEndCb]) =
     Some [Connect (Some ''wss://broker'')
             \<lparr> username = None, password = None, opt_connectTimeout = Fin 15000,
               reconnectPeriod = 0,
               wsOptions_headers =
                 [(''sec-websocket-protocol'', ''mqtt''),
                  (''User-Agent'', ''github-selfhosted-mqtt-publisher/1.0'')] \<rparr>,
           SetTimeout (Fin 20000),
           ClearTimeout,
           Publish (Some ''releases'') ''v1.2.3'' 1,
           End True True,
           Resolve]"
    by (simp add: attempt_def publishOnce_start_def settle_def load_config_def or_number_def
          or_string_def mk_options_def wsHeaders_def)
  from connect_publishes_qos1 [of ?cfg ?e "''x''"] a show ?thesis
    by simp
qed



end
